theory Spec2Isabelle
  imports Main "HOL-Library.Multiset" "HOL-Library.Sublist" "HOL-Library.Word"
begin

section \<open>Python strings\<close>

text \<open>
  A \<open>str\<close> is the list of its code points. \<open>ustr\<close> gives the \<open>str\<close> of a literal.
  \<open>str_in sub s\<close> is Python's \<open>sub in s\<close>: \<open>sub\<close> occurs in \<open>s\<close> as a contiguous run.
\<close>

type_synonym codepoint = nat

type_synonym str = "codepoint list"

definition ustr :: "string \<Rightarrow> str" where
  "ustr s = map of_char s"

fun str_in :: "str \<Rightarrow> str \<Rightarrow> bool" where
  "str_in sub [] = (sub = [])"
| "str_in sub (c # cs) = (prefix sub (c # cs) \<or> str_in sub cs)"

text \<open>
  \<open>str.lower()\<close>, as CPython computes it. The tables of the Unicode database are
  parameters: \<open>to_lower_full c\<close> is the lowercase mapping of a code point (one to three
  code points), \<open>is_cased\<close> and \<open>is_case_ignorable\<close> are the two properties of that
  name.

  A string of ASCII characters only is lowered character by character, \<open>A..Z\<close> to
  \<open>a..z\<close>. Any other string is lowered by \<open>do_lower\<close>: every character goes to its
  lowercase mapping, except the capital sigma \<open>U+03A3\<close>, which becomes the final sigma
  \<open>U+03C2\<close> when a cased character comes before it and none comes after it (case-ignorable
  characters skipped on both sides), and the small sigma \<open>U+03C3\<close> otherwise. In
  \<open>final_sigma\<close>, \<open>lower_ucs4\<close> and \<open>do_lower\<close>, \<open>before\<close> holds the characters to the
  left of the current one, the nearest first, and \<open>after\<close> those to its right.
\<close>

record ucd =
  to_lower_full :: "codepoint \<Rightarrow> codepoint list"
  is_cased :: "codepoint \<Rightarrow> bool"
  is_case_ignorable :: "codepoint \<Rightarrow> bool"

definition ascii_tolower :: "codepoint \<Rightarrow> codepoint" where
  "ascii_tolower c = (if 0x41 \<le> c \<and> c \<le> 0x5A then c + 0x20 else c)"

definition final_sigma :: "ucd \<Rightarrow> str \<Rightarrow> str \<Rightarrow> bool" where
  "final_sigma U before after =
     (case dropWhile (is_case_ignorable U) before of
        [] \<Rightarrow> False
      | c # cs \<Rightarrow>
          is_cased U c \<and>
          (case dropWhile (is_case_ignorable U) after of
             [] \<Rightarrow> True
           | d # ds \<Rightarrow> \<not> is_cased U d))"

definition lower_ucs4 :: "ucd \<Rightarrow> str \<Rightarrow> codepoint \<Rightarrow> str \<Rightarrow> codepoint list" where
  "lower_ucs4 U before c after =
     (if c = 0x3A3 then [if final_sigma U before after then 0x3C2 else 0x3C3]
      else to_lower_full U c)"

fun do_lower :: "ucd \<Rightarrow> str \<Rightarrow> str \<Rightarrow> str" where
  "do_lower U before [] = []"
| "do_lower U before (c # after) = lower_ucs4 U before c after @ do_lower U (c # before) after"

definition lower :: "ucd \<Rightarrow> str \<Rightarrow> str" where
  "lower U s = (if list_all (\<lambda>c. c < 0x80) s then map ascii_tolower s else do_lower U [] s)"

text \<open>
  Two facts of the Unicode database that the proofs use: the lowercase mapping of an
  ASCII character is the one above, and the space \<open>U+0020\<close> is neither cased nor
  case-ignorable.
\<close>

definition ucd_ok :: "ucd \<Rightarrow> bool" where
  "ucd_ok U = ((\<forall>c < 0x80. to_lower_full U c = [ascii_tolower c]) \<and>
               \<not> is_cased U 0x20 \<and> \<not> is_case_ignorable U 0x20)"

section \<open>The libraries the program calls, and the state they keep\<close>

text \<open>
  The program draws from two random generators that live outside it:
  \<^item> Faker's shared generator (\<open>faker.generator.random\<close>, a \<open>random.Random\<close> instance of
    Faker's own): \<open>fake.name()\<close> and \<open>fake.address()\<close> draw from it, \<open>Faker.seed(s)\<close>
    seeds it;
  \<^item> the hidden generator of the \<open>random\<close> module, from which \<open>random.shuffle\<close> draws.
    Nothing in \<open>main.py\<close> seeds it.

  The libraries are parameters of the model: a generator state is a value of any type
  \<open>'r\<close>, \<open>random_seed\<close> is the state \<open>Random.seed(s)\<close> leaves, \<open>randbelow g n\<close> is
  \<open>Random._randbelow(n)\<close> (the number drawn and the state after), \<open>faker_name\<close> and
  \<open>faker_address\<close> are Faker's providers as functions of the generator state, and
  \<open>unicodedata\<close> holds the tables of the interpreter's Unicode database.
\<close>

record 'r pylib =
  random_seed :: "int \<Rightarrow> 'r"
  randbelow :: "'r \<Rightarrow> nat \<Rightarrow> nat \<times> 'r"
  faker_name :: "'r \<Rightarrow> str \<times> 'r"
  faker_address :: "'r \<Rightarrow> str \<times> 'r"
  unicodedata :: ucd

text \<open>The contract of \<open>_randbelow(n)\<close>: for \<open>n > 0\<close> the number drawn is below \<open>n\<close>.\<close>

definition randbelow_ok :: "'r pylib \<Rightarrow> bool" where
  "randbelow_ok L = (\<forall>g n. 0 < n \<longrightarrow> fst (randbelow L g n) < n)"

record 'r rng_state =
  faker_random :: 'r
  module_random :: 'r

section \<open>generate_fake_data\<close>

text \<open>
  The loop body of \<open>generate_fake_data\<close>, run \<open>k\<close> more times: a name, an address, the
  city appended after a comma and a space when it is not in the address (both lowered),
  the pair appended to \<open>data\<close>.
\<close>

primrec generate_loop ::
  "'r pylib \<Rightarrow> str \<Rightarrow> nat \<Rightarrow> (str \<times> str) list \<Rightarrow> 'r \<Rightarrow> (str \<times> str) list \<times> 'r"
where
  "generate_loop L city 0 data g = (data, g)"
| "generate_loop L city (Suc k) data g =
     (let (name, g1) = faker_name L g;
          (address, g2) = faker_address L g1;
          address' = (if \<not> str_in (lower (unicodedata L) city) (lower (unicodedata L) address)
                      then address @ ustr '', '' @ city else address)
      in generate_loop L city k (data @ [(name, address')]) g2)"

text \<open>
  \<open>range(num_records)\<close> is empty for \<open>num_records \<le> 0\<close>, so the loop runs
  \<open>nat num_records\<close> times. With a seed, \<open>Faker.seed\<close> resets Faker's generator first.
\<close>

definition generate_fake_data ::
  "'r pylib \<Rightarrow> int \<Rightarrow> str \<Rightarrow> int option \<Rightarrow> 'r rng_state
     \<Rightarrow> (str \<times> str) list \<times> 'r rng_state"
where
  "generate_fake_data L num_records city seed w =
     (let g0 = (case seed of None \<Rightarrow> faker_random w | Some s \<Rightarrow> random_seed L s);
          (data, g) = generate_loop L city (nat num_records) [] g0
      in (data, w\<lparr>faker_random := g\<rparr>))"

text \<open>
  What Faker hands to the loop, for the statements below: the names and addresses that
  \<open>fake.name()\<close> and \<open>fake.address()\<close> return in \<open>k\<close> passes from the generator state
  \<open>g\<close>, before the loop touches them.
\<close>

primrec faker_draws :: "'r pylib \<Rightarrow> nat \<Rightarrow> 'r \<Rightarrow> (str \<times> str) list" where
  "faker_draws L 0 g = []"
| "faker_draws L (Suc k) g =
     (let (name, g1) = faker_name L g;
          (address, g2) = faker_address L g1
      in (name, address) # faker_draws L k g2)"

section \<open>reassign_addresses\<close>

text \<open>
  \<open>random.shuffle(x)\<close>: for \<open>i\<close> from \<open>len(x) - 1\<close> down to \<open>1\<close>, draw
  \<open>j = randbelow(i + 1)\<close> and exchange \<open>x[i]\<close> and \<open>x[j]\<close>.
\<close>

definition shuffle_step :: "'r pylib \<Rightarrow> nat \<Rightarrow> 'a list \<times> 'r \<Rightarrow> 'a list \<times> 'r" where
  "shuffle_step L i = (\<lambda>(x, g).
     let (j, g') = randbelow L g (i + 1) in (x[i := x ! j, j := x ! i], g'))"

definition shuffle :: "'r pylib \<Rightarrow> 'a list \<Rightarrow> 'r \<Rightarrow> 'a list \<times> 'r" where
  "shuffle L x g = fold (shuffle_step L) (rev [1..<length x]) (x, g)"

definition reassign_addresses ::
  "'r pylib \<Rightarrow> (str \<times> str) list \<Rightarrow> 'r rng_state
     \<Rightarrow> (str \<times> str) list \<times> 'r rng_state"
where
  "reassign_addresses L data w =
     (let (addresses, g) = shuffle L (map snd data) (module_random w);
          reassigned_data = map (\<lambda>(i, (name, _)). (name, addresses ! i)) (enumerate 0 data)
      in (reassigned_data, w\<lparr>module_random := g\<rparr>))"

section \<open>The pipeline\<close>

text \<open>
  What \<open>main\<close> does between validation and writing: \<open>generate_fake_data\<close>, then
  \<open>reassign_addresses\<close> on its result, the generator states threaded through.
\<close>

definition pipeline ::
  "'r pylib \<Rightarrow> int \<Rightarrow> str \<Rightarrow> int option \<Rightarrow> 'r rng_state
     \<Rightarrow> (str \<times> str) list \<times> 'r rng_state"
where
  "pipeline L num_records city seed w =
     (let (data, w1) = generate_fake_data L num_records city seed w
      in reassign_addresses L data w1)"

section \<open>Python values and exceptions\<close>

text \<open>
  \<open>validate_input\<close> tests the types of its arguments at run time, so the parsed
  arguments are dynamically typed values: \<open>None\<close>, a \<open>bool\<close>, an \<open>int\<close>, a \<open>str\<close>, or
  an object of any other type. The namespace has the four attributes the parser
  declares (the fields carry the prefix \<open>args_\<close>).
\<close>

datatype pyval = PNone | PBool bool | PInt int | PStr str | PObject

record namespace =
  args_city :: pyval
  args_num_records :: pyval
  args_output_file :: pyval
  args_seed :: pyval

text \<open>
  The exceptions that occur, each with its message, \<open>UnicodeEncodeError\<close> with the
  text that could not be encoded. The first four classes are subclasses of
  \<open>Exception\<close>; \<open>KeyboardInterrupt\<close> stands for the exceptions that are not
  (\<open>except Exception\<close> does not catch them). \<open>is_ValueError e\<close>: the class of \<open>e\<close> is
  \<open>ValueError\<close> itself. \<open>isinstance_ValueError e\<close> is what \<open>except ValueError\<close> tests:
  \<open>UnicodeEncodeError\<close> is a subclass of \<open>ValueError\<close>.
\<close>

datatype exn =
    ValueError string
  | UnicodeEncodeError str
  | OSError string
  | TypeError string
  | KeyboardInterrupt

fun is_ValueError :: "exn \<Rightarrow> bool" where
  "is_ValueError (ValueError m) = True"
| "is_ValueError e = False"

fun isinstance_ValueError :: "exn \<Rightarrow> bool" where
  "isinstance_ValueError (ValueError m) = True"
| "isinstance_ValueError (UnicodeEncodeError t) = True"
| "isinstance_ValueError e = False"

fun is_Exception :: "exn \<Rightarrow> bool" where
  "is_Exception KeyboardInterrupt = False"
| "is_Exception e = True"

text \<open>
  \<open>isinstance(v, str)\<close> and \<open>isinstance(v, int)\<close> (\<open>bool\<close> is a subclass of \<open>int\<close>:
  \<open>True\<close> is \<open>1\<close> and \<open>False\<close> is \<open>0\<close>), Python's truth value, the integer an \<open>int\<close>
  instance stands for, and \<open>v <= 0\<close> on such an instance.
\<close>

fun isinstance_str :: "pyval \<Rightarrow> bool" where
  "isinstance_str (PStr s) = True"
| "isinstance_str v = False"

fun isinstance_int :: "pyval \<Rightarrow> bool" where
  "isinstance_int (PInt n) = True"
| "isinstance_int (PBool b) = True"
| "isinstance_int v = False"

fun truthy :: "pyval \<Rightarrow> bool" where
  "truthy PNone = False"
| "truthy (PBool b) = b"
| "truthy (PInt n) = (n \<noteq> 0)"
| "truthy (PStr s) = (s \<noteq> [])"
| "truthy PObject = True"

fun int_value :: "pyval \<Rightarrow> int option" where
  "int_value (PInt n) = Some n"
| "int_value (PBool b) = Some (if b then 1 else 0)"
| "int_value v = None"

fun le_zero :: "pyval \<Rightarrow> bool" where
  "le_zero v = (case int_value v of Some n \<Rightarrow> n \<le> 0 | None \<Rightarrow> False)"

section \<open>validate_input\<close>

text \<open>
  The four checks in the order of the source; the first one that fails raises
  \<open>ValueError\<close>. \<open>or\<close> and \<open>and\<close> evaluate the right operand only when the left one
  does not decide, so \<open>not args.city\<close> is only taken of a string and
  \<open>args.num_records <= 0\<close> only of an \<open>int\<close> instance.
\<close>

definition validate_input :: "namespace \<Rightarrow> exn + unit" where
  "validate_input args =
     (if \<not> isinstance_str (args_city args) \<or> \<not> truthy (args_city args)
        then Inl (ValueError ''City must be a non-empty string.'')
      else if \<not> isinstance_int (args_num_records args) \<or> le_zero (args_num_records args)
        then Inl (ValueError ''Number of records must be a positive integer.'')
      else if \<not> isinstance_str (args_output_file args) \<or> \<not> truthy (args_output_file args)
        then Inl (ValueError ''Output file must be a non-empty string.'')
      else if args_seed args \<noteq> PNone \<and> \<not> isinstance_int (args_seed args)
        then Inl (ValueError ''Seed must be an integer.'')
      else Inr ())"

text \<open>
  The four conditions of the specification, in its words: a value is a string, is an
  integer, is a positive integer. An integer is an instance of \<open>int\<close>, as for Python.
\<close>

definition is_string :: "pyval \<Rightarrow> bool" where
  "is_string v = (\<exists>s. v = PStr s)"

definition is_integer :: "pyval \<Rightarrow> bool" where
  "is_integer v = (int_value v \<noteq> None)"

definition is_positive_integer :: "pyval \<Rightarrow> bool" where
  "is_positive_integer v = (\<exists>n. int_value v = Some n \<and> 0 < n)"

definition invalid_args :: "namespace \<Rightarrow> bool" where
  "invalid_args args =
     ((args_city args = PStr [] \<or> \<not> is_string (args_city args)) \<or>
      \<not> is_positive_integer (args_num_records args) \<or>
      (args_output_file args = PStr [] \<or> \<not> is_string (args_output_file args)) \<or>
      (args_seed args \<noteq> PNone \<and> \<not> is_integer (args_seed args)))"

section \<open>write_data_to_csv\<close>

text \<open>
  \<open>csv.writer\<close> with the default dialect (\<open>excel\<close>: delimiter comma \<open>0x2C\<close>, quote
  character \<open>0x22\<close>, doubled quotes, minimal quoting, line terminator CR LF). A field is
  quoted when it holds the delimiter, the quote character or a character of the line
  terminator; a quote character inside is doubled. A row whose only field is empty is
  written as two quote characters. \<open>csv_writerow row\<close> is the line that \<open>writerow\<close>
  hands to the file's \<open>write\<close>, in one call; \<open>writerows\<close> does so row by row. This is
  the module as of CPython 3.11, where the dialect has no escape character and NUL is a
  character like any other.
\<close>

definition CR :: codepoint where "CR = 0x0D"
definition LF :: codepoint where "LF = 0x0A"

definition needs_quotes :: "codepoint \<Rightarrow> bool" where
  "needs_quotes c = (c = 0x2C \<or> c = 0x22 \<or> c = CR \<or> c = LF)"

definition csv_field :: "str \<Rightarrow> str" where
  "csv_field f =
     (if list_ex needs_quotes f
      then [0x22] @ concat (map (\<lambda>c. if c = 0x22 then [c, c] else [c]) f) @ [0x22]
      else f)"

fun join_fields :: "str list \<Rightarrow> str" where
  "join_fields [] = []"
| "join_fields [f] = f"
| "join_fields (f # fs) = f @ 0x2C # join_fields fs"

definition csv_writerow :: "str list \<Rightarrow> str" where
  "csv_writerow row =
     (if row = [[]] then [0x22, 0x22] else join_fields (map csv_field row)) @ [CR, LF]"

definition csv_writerows :: "str list list \<Rightarrow> str list" where
  "csv_writerows rows = map csv_writerow rows"

text \<open>
  The file is opened in text mode with no \<open>encoding\<close> argument, so what is written is
  encoded with the encoding of the locale, errors being strict: a character the
  encoding does not have makes \<open>write\<close> raise \<open>UnicodeEncodeError\<close>. The encoding is a
  parameter: \<open>encode_char c\<close> gives the bytes of a character, or \<open>None\<close> when it has
  none, and \<open>decode\<close> is the decoder of the same encoding (reading a file needs it).
\<close>

type_synonym byte = "8 word"

record codec =
  encode_char :: "codepoint \<Rightarrow> byte list option"
  decode :: "byte list \<Rightarrow> str option"

fun encode :: "codec \<Rightarrow> str \<Rightarrow> byte list option" where
  "encode C [] = Some []"
| "encode C (c # cs) =
     (case encode_char C c of
        None \<Rightarrow> None
      | Some b \<Rightarrow> (case encode C cs of None \<Rightarrow> None | Some bs \<Rightarrow> Some (b @ bs)))"

text \<open>
  The log is the list of the records emitted, each a level and what the message
  reports. The file system maps a path to the bytes of the file. \<open>fault\<close> names, for a
  path, the exception that opening it raises, or the exception that the file system
  raises when the bytes are handed to it, and how many bytes reached the file before.
  \<open>encoding\<close> is the encoding of the locale.
\<close>

datatype level = INFO | ERROR

datatype message =
    Starting
  | Parameters pyval pyval pyval
  | Using_seed pyval
  | Data_written str
  | Error_writing str exn
  | Completed
  | Input_validation_error exn
  | Unexpected_error exn

datatype io_fault = Open_fails exn | Write_fails nat exn

fun fault_exn :: "io_fault \<Rightarrow> exn" where
  "fault_exn (Open_fails e) = e"
| "fault_exn (Write_fails k e) = e"

record 'r world =
  rng :: "'r rng_state"
  log :: "(level \<times> message) list"
  files :: "str \<Rightarrow> byte list option"
  fault :: "str \<Rightarrow> io_fault option"
  encoding :: codec

definition logging :: "level \<Rightarrow> message \<Rightarrow> 'r world \<Rightarrow> 'r world" where
  "logging lvl msg w = w\<lparr>log := log w @ [(lvl, msg)]\<rparr>"

text \<open>
  The calls of \<open>write\<close> on the open file, one per line: each line is encoded and its
  bytes are appended to \<open>buf\<close>, the bytes written so far. The first line that cannot be
  encoded raises, and the lines before it stay written.
\<close>

fun write_lines :: "codec \<Rightarrow> str list \<Rightarrow> byte list \<Rightarrow> (exn + unit) \<times> byte list" where
  "write_lines C [] buf = (Inr (), buf)"
| "write_lines C (t # ts) buf =
     (case encode C t of
        None \<Rightarrow> (Inl (UnicodeEncodeError t), buf)
      | Some b \<Rightarrow> write_lines C ts (buf @ b))"

text \<open>
  The body of the \<open>with\<close> block: open the file for writing (\<open>newline=""\<close>, so line
  endings are stored as written), write the header row and the data rows, close.
  Leaving the block closes the file also when a \<open>write\<close> raised, and closing hands the
  bytes written so far to the file system; when that fails, its exception is the one
  that leaves the block.
\<close>

definition open_and_write :: "str \<Rightarrow> str list \<Rightarrow> 'r world \<Rightarrow> (exn + unit) \<times> 'r world" where
  "open_and_write path lines w =
     (case fault w path of
        Some (Open_fails e) \<Rightarrow> (Inl e, w)
      | Some (Write_fails k e) \<Rightarrow>
          (Inl e, w\<lparr>files := (files w)(path \<mapsto> take k (snd (write_lines (encoding w) lines [])))\<rparr>)
      | None \<Rightarrow>
          (case write_lines (encoding w) lines [] of
             (res, buf) \<Rightarrow> (res, w\<lparr>files := (files w)(path \<mapsto> buf)\<rparr>)))"

text \<open>
  \<open>except Exception as e\<close>: log the error, then \<open>raise\<close> re-raises \<open>e\<close> itself. An
  exception that is not an \<open>Exception\<close> passes through unlogged.
\<close>

definition write_data_to_csv ::
  "(str \<times> str) list \<Rightarrow> str \<Rightarrow> 'r world \<Rightarrow> (exn + unit) \<times> 'r world"
where
  "write_data_to_csv data output_file w =
     (case open_and_write output_file
             (csv_writerow [ustr ''Name'', ustr ''Address'']
                # csv_writerows (map (\<lambda>(name, address). [name, address]) data)) w of
        (Inr u, w1) \<Rightarrow> (Inr (), logging INFO (Data_written output_file) w1)
      | (Inl e, w1) \<Rightarrow>
          if is_Exception e then (Inl e, logging ERROR (Error_writing output_file e) w1)
          else (Inl e, w1))"

section \<open>main\<close>

text \<open>
  The process ends with an exit code (\<open>sys.exit(1)\<close> in a handler, or \<open>0\<close> when \<open>main\<close>
  returns), or with an exception nothing caught. \<open>handle_exn\<close> is the two \<open>except\<close>
  clauses of \<open>main\<close>, in their order. \<open>main\<close> takes the namespace \<open>parse_args\<close>
  returned. The values are handed to the functions as the types those compute with; a
  value of another type would raise inside the \<open>try\<close> block, which the last case stands
  for (validation excludes it).
\<close>

datatype outcome = Exit int | Uncaught exn

definition handle_exn :: "exn \<Rightarrow> 'r world \<Rightarrow> outcome \<times> 'r world" where
  "handle_exn e w =
     (if isinstance_ValueError e then (Exit 1, logging ERROR (Input_validation_error e) w)
      else if is_Exception e then (Exit 1, logging ERROR (Unexpected_error e) w)
      else (Uncaught e, w))"

fun str_value :: "pyval \<Rightarrow> str option" where
  "str_value (PStr s) = Some s"
| "str_value v = None"

fun seed_value :: "pyval \<Rightarrow> int option option" where
  "seed_value PNone = Some None"
| "seed_value v = map_option Some (int_value v)"

definition main :: "'r pylib \<Rightarrow> namespace \<Rightarrow> 'r world \<Rightarrow> outcome \<times> 'r world" where
  "main L args w =
     (case validate_input args of
        Inl e \<Rightarrow> handle_exn e w
      | Inr u \<Rightarrow>
          (let w1 = logging INFO Starting w;
               w2 = logging INFO (Parameters (args_city args) (args_num_records args) (args_output_file args)) w1;
               w3 = (if args_seed args \<noteq> PNone then logging INFO (Using_seed (args_seed args)) w2 else w2)
           in case (int_value (args_num_records args), str_value (args_city args), seed_value (args_seed args),
                    str_value (args_output_file args)) of
                (Some n, Some c, Some s, Some path) \<Rightarrow>
                  (let (data, r1) = generate_fake_data L n c s (rng w3);
                       (reassigned_data, r2) = reassign_addresses L data r1;
                       (res, w4) = write_data_to_csv reassigned_data path (w3\<lparr>rng := r2\<rparr>)
                   in case res of
                        Inl e \<Rightarrow> handle_exn e w4
                      | Inr u \<Rightarrow> (Exit 0, logging INFO Completed w4))
              | _ \<Rightarrow> handle_exn (TypeError ''argument of the wrong type'') w3))"

text \<open>
  For the statements about the file: \<open>encodable C s\<close> says that the encoding has every
  character of \<open>s\<close>. \<open>codec_ok\<close> is what the encodings of a locale have in common: they
  have the ASCII characters, and decoding gives back the text that was encoded.
\<close>

definition encodable :: "codec \<Rightarrow> str \<Rightarrow> bool" where
  "encodable C s = list_all (\<lambda>c. encode_char C c \<noteq> None) s"


section \<open>Reading the file back\<close>

















section \<open>A small library instance for concrete runs\<close>

text \<open>
  An excerpt of the Unicode database: the ASCII letters, \<open>U+00C9\<close> and \<open>U+00E9\<close> (E
  acute), \<open>U+0130\<close> (capital I with dot above, whose lowercase mapping has two code
  points), the three sigmas, and the case-ignorable characters of ASCII with the
  combining dot above \<open>U+0307\<close>.
\<close>

definition demo_ucd :: ucd where
  "demo_ucd = \<lparr>
     to_lower_full = (\<lambda>c. if 0x41 \<le> c \<and> c \<le> 0x5A then [c + 0x20]
                          else if c = 0xC9 then [0xE9]
                          else if c = 0x130 then [0x69, 0x307]
                          else [c]),
     is_cased = (\<lambda>c. 0x41 \<le> c \<and> c \<le> 0x5A \<or> 0x61 \<le> c \<and> c \<le> 0x7A
                      \<or> c \<in> {0xC9, 0xE9, 0x130, 0x3A3, 0x3C2, 0x3C3}),
     is_case_ignorable = (\<lambda>c. c \<in> {0x27, 0x2E, 0x3A, 0x5E, 0x60, 0x307}) \<rparr>"

text \<open>
  A generator whose state is a counter: seeding with \<open>s\<close> sets it to \<open>|s|\<close>, every
  draw advances it by one, \<open>randbelow g n\<close> draws \<open>g mod n\<close>, and the providers pick
  between two names and two addresses.
\<close>

definition demo_lib :: "nat pylib" where
  "demo_lib = \<lparr>
     random_seed = (\<lambda>s. nat \<bar>s\<bar>),
     randbelow = (\<lambda>g n. (g mod n, Suc g)),
     faker_name = (\<lambda>g. (if g mod 4 = 0 then ustr ''Ann Lee'' else ustr ''Bob Ray'', Suc g)),
     faker_address = (\<lambda>g. (if g mod 4 = 3 then ustr ''12 Elm St''
                             else ustr ''7 Oak Ave, PARIS'', Suc g)),
     unicodedata = demo_ucd \<rparr>"

text \<open>The ASCII encoding: one byte for a character below \<open>0x80\<close>, none for any other.\<close>

definition ascii_codec :: codec where
  "ascii_codec = \<lparr>
     encode_char = (\<lambda>c. if c < 0x80 then Some [of_nat c] else None),
     decode = (\<lambda>b. if list_all (\<lambda>x. x < 0x80) b then Some (map unat b) else None) \<rparr>"

text \<open>
  Arguments that pass validation, and a world with the ASCII encoding in which their
  output path cannot be opened (every other path can be written).
\<close>

definition demo_args :: namespace where
  "demo_args = \<lparr>args_city = PStr (ustr ''Paris''), args_num_records = PInt 2,
     args_output_file = PStr (ustr ''/no/such/dir/out.csv''), args_seed = PInt 42\<rparr>"

definition demo_world :: "nat world" where
  "demo_world = \<lparr>rng = \<lparr>faker_random = 0, module_random = 0\<rparr>, log = [],
     files = Map.empty,
     fault = (\<lambda>p. if p = ustr ''/no/such/dir/out.csv''
                   then Some (Open_fails (OSError ''No such file or directory'')) else None),
     encoding = ascii_codec\<rparr>"

section \<open>Facts about the generator\<close>

lemma generate_loop_length:
  "length (fst (generate_loop L city k data g)) = length data + k"
  by (induction k arbitrary: data g) (simp_all add: Let_def split: prod.splits)

lemma generate_fake_data_length:
  "length (fst (generate_fake_data L num_records city seed w)) = nat num_records"
  by (simp add: generate_fake_data_def Let_def case_prod_beta generate_loop_length)

text \<open>
  C5. For a positive \<open>num_records\<close> (and any city and seed, given or absent) the list
  returned by \<open>generate_fake_data\<close> has exactly \<open>num_records\<close> elements.
\<close>

theorem generate_fake_data_count:
  assumes "0 < num_records"
  shows "int (length (fst (generate_fake_data L num_records city seed w))) = num_records"
  using assms by (simp add: generate_fake_data_length)

theorem generate_fake_data_count_witness:
  "(0::int) < 3 \<and>
   int (length (fst (generate_fake_data demo_lib 3 (ustr ''Paris'') (Some 42)
     \<lparr>faker_random = 0, module_random = 0\<rparr>))) = 3"
  using generate_fake_data_count [of 3 demo_lib "ustr ''Paris''" "Some 42"
    "\<lparr>faker_random = 0, module_random = 0\<rparr>"]
  by simp

text \<open>
  C10. For \<open>num_records \<le> 0\<close> the generator returns the empty list (the model has no
  error branch here: the function has no check of \<open>num_records\<close> to fail).
\<close>

theorem generate_fake_data_nonpositive:
  assumes "num_records \<le> 0"
  shows "fst (generate_fake_data L num_records city seed w) = []"
  using assms by (simp add: generate_fake_data_def)

theorem generate_fake_data_nonpositive_witness:
  "(-2::int) \<le> 0 \<and>
   fst (generate_fake_data demo_lib (-2) (ustr ''Paris'') None
     \<lparr>faker_random = 5, module_random = 0\<rparr>) = []"
  using generate_fake_data_nonpositive [of "-2" demo_lib "ustr ''Paris''" None
    "\<lparr>faker_random = 5, module_random = 0\<rparr>"]
  by simp

subsection \<open>Lowering a string that ends with a space and the city\<close>

lemma final_sigma_after_space:
  assumes "ucd_ok U"
  shows "final_sigma U (b @ 0x20 # p) after = final_sigma U b after"
proof (cases "\<forall>x \<in> set b. is_case_ignorable U x")
  case True
  then have d1: "dropWhile (is_case_ignorable U) (b @ 0x20 # p) = 0x20 # p"
    and d2: "dropWhile (is_case_ignorable U) b = []"
    using assms by (simp_all add: dropWhile_append ucd_ok_def)
  show ?thesis
    unfolding final_sigma_def d1 d2 using assms by (simp add: ucd_ok_def)
next
  case False
  then obtain x where "x \<in> set b" and "\<not> is_case_ignorable U x"
    by blast
  then have e: "dropWhile (is_case_ignorable U) (b @ 0x20 # p)
      = dropWhile (is_case_ignorable U) b @ 0x20 # p"
    by (rule dropWhile_append1)
  from False obtain z zs where z: "dropWhile (is_case_ignorable U) b = z # zs"
    by (cases "dropWhile (is_case_ignorable U) b") simp_all
  show ?thesis
    unfolding final_sigma_def e z by simp
qed

lemma do_lower_after_space:
  assumes "ucd_ok U"
  shows "do_lower U (b @ 0x20 # p) s = do_lower U b s"
proof (induction s arbitrary: b)
  case Nil
  then show ?case by simp
next
  case (Cons c s)
  from Cons.IH [of "c # b"] show ?case
    by (simp add: lower_ucs4_def final_sigma_after_space [OF assms])
qed

lemma do_lower_suffix:
  "\<exists>pre. do_lower U b (xs @ ys) = pre @ do_lower U (rev xs @ b) ys"
proof (induction xs arbitrary: b)
  case Nil
  then show ?case by simp
next
  case (Cons x xs)
  from Cons.IH [of "x # b"] obtain pre where
    "do_lower U (x # b) (xs @ ys) = pre @ do_lower U (rev xs @ x # b) ys"
    by blast
  then show ?case by simp
qed

lemma do_lower_ascii:
  assumes "ucd_ok U" and "list_all (\<lambda>c. c < 0x80) s"
  shows "do_lower U b s = map ascii_tolower s"
  using assms(2)
proof (induction s arbitrary: b)
  case Nil
  then show ?case by simp
next
  case (Cons c s)
  then have c: "c < 0x80" and s: "list_all (\<lambda>c. c < 0x80) s"
    by simp_all
  from c assms(1) have "to_lower_full U c = [ascii_tolower c]"
    by (simp add: ucd_ok_def)
  with c Cons.IH [OF s] show ?case
    by (simp add: lower_ucs4_def)
qed

lemma lower_do_lower: "ucd_ok U \<Longrightarrow> lower U s = do_lower U [] s"
  by (simp add: lower_def do_lower_ascii)

lemma str_in_sublist: "str_in sub s = sublist sub s"
  by (induction s) (simp_all add: sublist_Cons_right)

lemma str_in_suffix: "str_in sub (a @ sub)"
  by (simp add: str_in_sublist)

lemma appended_address_has_city:
  assumes "ucd_ok U"
  shows "str_in (lower U city) (lower U (address @ ustr '', '' @ city))"
proof -
  have s: "address @ ustr '', '' @ city = (address @ [0x2C, 0x20]) @ city"
    by (simp add: ustr_def)
  obtain pre where "do_lower U [] ((address @ [0x2C, 0x20]) @ city)
      = pre @ do_lower U (rev (address @ [0x2C, 0x20]) @ []) city"
    using do_lower_suffix by blast
  then have "do_lower U [] ((address @ [0x2C, 0x20]) @ city)
      = pre @ do_lower U ([] @ 0x20 # 0x2C # rev address) city"
    by simp
  then have "do_lower U [] ((address @ [0x2C, 0x20]) @ city) = pre @ do_lower U [] city"
    unfolding do_lower_after_space [OF assms] .
  then show ?thesis
    unfolding s lower_do_lower [OF assms] by (simp only: str_in_suffix)
qed

subsection \<open>The city in every address\<close>

lemma generate_loop_draws:
  "fst (generate_loop L city k data g) =
     data @ map (\<lambda>(name, address).
                   (name, if \<not> str_in (lower (unicodedata L) city) (lower (unicodedata L) address)
                          then address @ ustr '', '' @ city else address))
              (faker_draws L k g)"
  by (induction k arbitrary: data g) (simp_all add: Let_def split: prod.splits)

lemma demo_lib_unicodedata: "unicodedata demo_lib = demo_ucd"
  by (simp add: demo_lib_def)

lemma demo_ucd_ok: "ucd_ok demo_ucd"
  by (simp add: ucd_ok_def demo_ucd_def ascii_tolower_def)

lemma demo_generate:
  "fst (generate_fake_data demo_lib 2 (ustr ''Paris'') (Some 42)
         \<lparr>faker_random = 0, module_random = 0\<rparr>)
     = [(ustr ''Bob Ray'', ustr ''12 Elm St, Paris''), (ustr ''Ann Lee'', ustr ''7 Oak Ave, PARIS'')]"
  by (simp add: generate_fake_data_def demo_lib_def demo_ucd_def numeral_2_eq_2 lower_def
      ascii_tolower_def ustr_def)

lemma demo_draws:
  "faker_draws demo_lib 2 42
     = [(ustr ''Bob Ray'', ustr ''12 Elm St''), (ustr ''Ann Lee'', ustr ''7 Oak Ave, PARIS'')]"
  by (simp add: demo_lib_def numeral_2_eq_2)

text \<open>
  C2. Every address in the list returned by \<open>generate_fake_data\<close> contains the city as
  a substring once both are lowered (for every number of records and every city, so
  for \<open>num_records \<ge> 1\<close> and a non-empty city). The list is Faker's names and
  addresses in the order drawn, an address with a comma, a space and the city appended
  exactly when the lowered city is not in the lowered address Faker gave, and unchanged
  otherwise. The hypothesis names the facts of the Unicode database that are used.
\<close>

theorem generated_address_contains_city:
  assumes "ucd_ok (unicodedata L)"
  shows "(\<forall>(name, address) \<in> set (fst (generate_fake_data L num_records city seed w)).
            str_in (lower (unicodedata L) city) (lower (unicodedata L) address)) \<and>
         fst (generate_fake_data L num_records city seed w) =
           map (\<lambda>(name, address).
                  (name, if \<not> str_in (lower (unicodedata L) city) (lower (unicodedata L) address)
                         then address @ ustr '', '' @ city else address))
             (faker_draws L (nat num_records)
                (case seed of None \<Rightarrow> faker_random w | Some s \<Rightarrow> random_seed L s))"
proof -
  let ?U = "unicodedata L"
  let ?g = "case seed of None \<Rightarrow> faker_random w | Some s \<Rightarrow> random_seed L s"
  let ?fix = "\<lambda>(name, address).
      (name, if \<not> str_in (lower ?U city) (lower ?U address)
             then address @ ustr '', '' @ city else address)"
  have d: "fst (generate_fake_data L num_records city seed w)
      = map ?fix (faker_draws L (nat num_records) ?g)"
    using generate_loop_draws [of L city "nat num_records" "[]" ?g]
    by (simp add: generate_fake_data_def Let_def case_prod_beta)
  have "\<forall>(name, address) \<in> set (map ?fix (faker_draws L (nat num_records) ?g)).
      str_in (lower ?U city) (lower ?U address)"
    by (auto simp add: appended_address_has_city [OF assms])
  with d show ?thesis by simp
qed

theorem generated_address_contains_city_witness:
  "ucd_ok (unicodedata demo_lib) \<and>
   faker_draws demo_lib 2 42
     = [(ustr ''Bob Ray'', ustr ''12 Elm St''), (ustr ''Ann Lee'', ustr ''7 Oak Ave, PARIS'')] \<and>
   fst (generate_fake_data demo_lib 2 (ustr ''Paris'') (Some 42)
         \<lparr>faker_random = 0, module_random = 0\<rparr>)
     = [(ustr ''Bob Ray'', ustr ''12 Elm St, Paris''), (ustr ''Ann Lee'', ustr ''7 Oak Ave, PARIS'')] \<and>
   str_in (lower demo_ucd (ustr ''Paris'')) (lower demo_ucd (ustr ''12 Elm St, Paris'')) \<and>
   str_in (lower demo_ucd (ustr ''Paris'')) (lower demo_ucd (ustr ''7 Oak Ave, PARIS''))"
  using generated_address_contains_city [of demo_lib 2 "ustr ''Paris''" "Some 42"
     "\<lparr>faker_random = 0, module_random = 0\<rparr>"]
  by (simp add: demo_generate demo_draws demo_ucd_ok demo_lib_unicodedata)

subsection \<open>Determinism in the seed\<close>

text \<open>
  C6. With a seed given, the list \<open>generate_fake_data\<close> returns does not depend on the
  generator states it starts from: two calls with the same \<open>(n, city, s)\<close> return the
  same list, from any two states, and so also when the second call starts from the state
  the first one left.
\<close>

theorem generate_fake_data_deterministic:
  "fst (generate_fake_data L n city (Some s) w) = fst (generate_fake_data L n city (Some s) w') \<and>
   fst (generate_fake_data L n city (Some s) (snd (generate_fake_data L n city (Some s) w)))
     = fst (generate_fake_data L n city (Some s) w)"
  by (simp add: generate_fake_data_def Let_def case_prod_beta)

section \<open>Facts about the shuffler\<close>

lemma shuffle_step_fst:
  "fst (shuffle_step L i (x, g)) =
     x[i := x ! fst (randbelow L g (i + 1)), fst (randbelow L g (i + 1)) := x ! i]"
  by (simp add: shuffle_step_def case_prod_beta)

lemma fold_shuffle_step_length:
  "length (fst (fold (shuffle_step L) is (x, g))) = length x"
proof (induction "is" arbitrary: x g)
  case Nil
  then show ?case by simp
next
  case (Cons i "is")
  obtain x' g' where s: "shuffle_step L i (x, g) = (x', g')"
    by (cases "shuffle_step L i (x, g)")
  have "length x' = length x"
    using shuffle_step_fst [of L i x g] by (simp add: s)
  with Cons.IH [of x' g'] show ?case by (simp add: s)
qed

lemma fold_shuffle_step_mset:
  assumes "randbelow_ok L" and "\<forall>i \<in> set is. i < length x"
  shows "mset (fst (fold (shuffle_step L) is (x, g))) = mset x"
  using assms(2)
proof (induction "is" arbitrary: x g)
  case Nil
  then show ?case by simp
next
  case (Cons i "is")
  obtain x' g' where s: "shuffle_step L i (x, g) = (x', g')"
    by (cases "shuffle_step L i (x, g)")
  let ?j = "fst (randbelow L g (i + 1))"
  have i: "i < length x" using Cons.prems by simp
  have "?j < i + 1" using assms(1) by (simp add: randbelow_ok_def)
  with i have j: "?j < length x" by simp
  have x': "x' = x[i := x ! ?j, ?j := x ! i]"
    using shuffle_step_fst [of L i x g] by (simp add: s)
  have len: "length x' = length x" by (simp add: x')
  have "mset x' = mset x"
    unfolding x' using j i by (rule mset_swap)
  moreover have "mset (fst (fold (shuffle_step L) is (x', g'))) = mset x'"
    using Cons.prems len by (intro Cons.IH) simp
  ultimately show ?case by (simp add: s)
qed

lemma shuffle_length: "length (fst (shuffle L x g)) = length x"
  by (simp add: shuffle_def fold_shuffle_step_length)

lemma shuffle_mset: "randbelow_ok L \<Longrightarrow> mset (fst (shuffle L x g)) = mset x"
  by (simp add: shuffle_def fold_shuffle_step_mset)

lemma repair_names:
  "map fst (map (\<lambda>(i, (name, _)). (name, addresses ! i)) (enumerate n data)) = map fst data"
  by (induction data arbitrary: n) (simp_all add: case_prod_beta)

lemma repair_addresses:
  "length addresses = length data \<Longrightarrow>
   map snd (map (\<lambda>(i, (name, _)). (name, addresses ! i)) (enumerate 0 data)) = addresses"
  by (rule nth_equalityI) (simp_all add: nth_enumerate_eq case_prod_beta)

lemma reassign_addresses_names:
  "map fst (fst (reassign_addresses L data w)) = map fst data"
  by (simp add: reassign_addresses_def Let_def case_prod_beta repair_names del: map_map)

lemma reassign_addresses_addresses:
  "map snd (fst (reassign_addresses L data w)) = fst (shuffle L (map snd data) (module_random w))"
  using repair_addresses [of "fst (shuffle L (map snd data) (module_random w))" data]
  by (simp add: reassign_addresses_def Let_def case_prod_beta shuffle_length del: map_map)

lemma demo_lib_ok: "randbelow_ok demo_lib"
  by (simp add: randbelow_ok_def demo_lib_def)

lemma demo_reassign:
  "fst (reassign_addresses demo_lib
          [(ustr ''Ann'', ustr ''1 Elm St''), (ustr ''Bob'', ustr ''2 Oak Ave''), (ustr ''Cy'', ustr ''3 Ash Rd'')]
          \<lparr>faker_random = 0, module_random = 0\<rparr>)
   = [(ustr ''Ann'', ustr ''3 Ash Rd''), (ustr ''Bob'', ustr ''2 Oak Ave''), (ustr ''Cy'', ustr ''1 Elm St'')]"
  by (simp add: reassign_addresses_def shuffle_def shuffle_step_def demo_lib_def
      enumerate_eq_zip upt_rec)

text \<open>
  C3. The addresses of \<open>reassign_addresses data\<close> are the addresses of \<open>data\<close> as a
  multiset: the column is permuted, nothing is added, lost or repeated. The hypothesis is
  the contract of \<open>randbelow\<close>, under which every exchange of the shuffle is in range.
\<close>

theorem reassign_addresses_permutes:
  assumes "randbelow_ok L"
  shows "mset (map snd (fst (reassign_addresses L data w))) = mset (map snd data)"
  using assms by (simp only: reassign_addresses_addresses shuffle_mset)

theorem reassign_addresses_permutes_witness:
  "randbelow_ok demo_lib \<and>
   mset (map snd (fst (reassign_addresses demo_lib
       [(ustr ''Ann'', ustr ''1 Elm St''), (ustr ''Bob'', ustr ''2 Oak Ave''), (ustr ''Cy'', ustr ''3 Ash Rd'')]
       \<lparr>faker_random = 0, module_random = 0\<rparr>)))
   = mset [ustr ''1 Elm St'', ustr ''2 Oak Ave'', ustr ''3 Ash Rd'']"
  using reassign_addresses_permutes [OF demo_lib_ok,
      of "[(ustr ''Ann'', ustr ''1 Elm St''), (ustr ''Bob'', ustr ''2 Oak Ave''), (ustr ''Cy'', ustr ''3 Ash Rd'')]"
         "\<lparr>faker_random = 0, module_random = 0\<rparr>"]
  by (simp add: demo_lib_ok)

text \<open>
  C4. \<open>reassign_addresses data\<close> is as long as \<open>data\<close>, and its \<open>i\<close>-th record carries
  the name of the \<open>i\<close>-th record of \<open>data\<close>: the name column and its order are untouched.
\<close>

theorem reassign_addresses_keeps_names:
  assumes "randbelow_ok L"
  shows "length (fst (reassign_addresses L data w)) = length data \<and>
         (\<forall>i < length data. fst (fst (reassign_addresses L data w) ! i) = fst (data ! i))"
proof -
  have m: "map fst (fst (reassign_addresses L data w)) = map fst data"
    by (rule reassign_addresses_names)
  then have len: "length (fst (reassign_addresses L data w)) = length data"
    by (metis length_map)
  have "fst (fst (reassign_addresses L data w) ! i) = fst (data ! i)" if "i < length data" for i
    using that len m by (metis nth_map)
  with len show ?thesis by simp
qed

theorem reassign_addresses_keeps_names_witness:
  "randbelow_ok demo_lib \<and>
   length (fst (reassign_addresses demo_lib
       [(ustr ''Ann'', ustr ''1 Elm St''), (ustr ''Bob'', ustr ''2 Oak Ave''), (ustr ''Cy'', ustr ''3 Ash Rd'')]
       \<lparr>faker_random = 0, module_random = 0\<rparr>)) = 3 \<and>
   fst (fst (reassign_addresses demo_lib
       [(ustr ''Ann'', ustr ''1 Elm St''), (ustr ''Bob'', ustr ''2 Oak Ave''), (ustr ''Cy'', ustr ''3 Ash Rd'')]
       \<lparr>faker_random = 0, module_random = 0\<rparr>) ! 2) = ustr ''Cy''"
  using reassign_addresses_keeps_names [OF demo_lib_ok,
      of "[(ustr ''Ann'', ustr ''1 Elm St''), (ustr ''Bob'', ustr ''2 Oak Ave''), (ustr ''Cy'', ustr ''3 Ash Rd'')]"
         "\<lparr>faker_random = 0, module_random = 0\<rparr>"]
  by (simp add: demo_lib_ok)

section \<open>Facts about the pipeline\<close>

lemma generate_fake_data_module_random:
  "module_random (snd (generate_fake_data L n city seed w)) = module_random w"
  by (simp add: generate_fake_data_def Let_def case_prod_beta)

lemma reassign_addresses_depends:
  "module_random w = module_random w' \<Longrightarrow>
   fst (reassign_addresses L data w) = fst (reassign_addresses L data w')"
  by (simp add: reassign_addresses_def Let_def case_prod_beta)

lemma pipeline_fst:
  "fst (pipeline L n city seed v) =
     fst (reassign_addresses L (fst (generate_fake_data L n city seed v))
            (snd (generate_fake_data L n city seed v)))"
  by (simp add: pipeline_def case_prod_beta)

lemma demo_pipeline_0:
  "fst (pipeline demo_lib 2 (ustr ''Paris'') (Some 42) \<lparr>faker_random = 0, module_random = 0\<rparr>)
   = [(ustr ''Bob Ray'', ustr ''7 Oak Ave, PARIS''), (ustr ''Ann Lee'', ustr ''12 Elm St, Paris'')]"
  by (simp add: pipeline_def generate_fake_data_def reassign_addresses_def shuffle_def
      shuffle_step_def demo_lib_def demo_ucd_def numeral_2_eq_2 lower_def ascii_tolower_def
      ustr_def enumerate_eq_zip upt_rec)

lemma demo_pipeline_1:
  "fst (pipeline demo_lib 2 (ustr ''Paris'') (Some 42) \<lparr>faker_random = 0, module_random = 1\<rparr>)
   = [(ustr ''Bob Ray'', ustr ''12 Elm St, Paris''), (ustr ''Ann Lee'', ustr ''7 Oak Ave, PARIS'')]"
  by (simp add: pipeline_def generate_fake_data_def reassign_addresses_def shuffle_def
      shuffle_step_def demo_lib_def demo_ucd_def numeral_2_eq_2 lower_def ascii_tolower_def
      ustr_def enumerate_eq_zip upt_rec)

text \<open>
  C1, as stated, fails. \<open>Faker.seed\<close> seeds Faker's generator; \<open>random.shuffle\<close> draws
  from the \<open>random\<close> module's generator, which the program never seeds. Two runs with the
  same \<open>(2, Paris, 42)\<close> that start from different states of the module's generator end
  with different address orders.
\<close>

theorem pipeline_seed_not_enough:
  "fst (pipeline demo_lib 2 (ustr ''Paris'') (Some 42) \<lparr>faker_random = 0, module_random = 0\<rparr>)
   \<noteq> fst (pipeline demo_lib 2 (ustr ''Paris'') (Some 42) \<lparr>faker_random = 0, module_random = 1\<rparr>)"
  unfolding demo_pipeline_0 demo_pipeline_1 by (simp add: ustr_def)

text \<open>
  C1, amended. For every \<open>n\<close>, city and seed \<open>s\<close>, two runs of the pipeline give the same
  names, from any two starting states; they give the same records (the same final address
  order) when the \<open>random\<close> module's generator is in the same state at the start of both
  runs. The state of Faker's generator at the start does not matter: the seed resets it.
\<close>

theorem pipeline_reproducible:
  "map fst (fst (pipeline L n city (Some s) w)) = map fst (fst (pipeline L n city (Some s) w')) \<and>
   (module_random w = module_random w' \<longrightarrow>
      fst (pipeline L n city (Some s) w) = fst (pipeline L n city (Some s) w'))"
proof -
  have d: "fst (generate_fake_data L n city (Some s) w)
      = fst (generate_fake_data L n city (Some s) w')"
    by (simp add: generate_fake_data_def Let_def case_prod_beta)
  have names: "map fst (fst (pipeline L n city (Some s) w))
      = map fst (fst (pipeline L n city (Some s) w'))"
    by (simp only: pipeline_fst reassign_addresses_names d)
  have "fst (pipeline L n city (Some s) w) = fst (pipeline L n city (Some s) w')"
    if "module_random w = module_random w'"
    unfolding pipeline_fst d
    by (rule reassign_addresses_depends) (simp add: generate_fake_data_module_random that)
  with names show ?thesis by simp
qed

theorem pipeline_reproducible_witness:
  "module_random \<lparr>faker_random = 7, module_random = (0::nat)\<rparr>
     = module_random \<lparr>faker_random = 0, module_random = (0::nat)\<rparr> \<and>
   fst (pipeline demo_lib 2 (ustr ''Paris'') (Some 42) \<lparr>faker_random = 7, module_random = 0\<rparr>)
     = [(ustr ''Bob Ray'', ustr ''7 Oak Ave, PARIS''), (ustr ''Ann Lee'', ustr ''12 Elm St, Paris'')]"
  using pipeline_reproducible [of demo_lib 2 "ustr ''Paris''" 42
          "\<lparr>faker_random = 7, module_random = 0\<rparr>" "\<lparr>faker_random = 0, module_random = 0\<rparr>"]
  by (simp add: demo_pipeline_0)

section \<open>Facts about validate_input\<close>

lemma is_string_iff: "is_string v = isinstance_str v"
  by (cases v) (simp_all add: is_string_def)

lemma is_integer_iff: "is_integer v = isinstance_int v"
  by (cases v) (simp_all add: is_integer_def)

lemma is_positive_integer_iff: "is_positive_integer v = (isinstance_int v \<and> \<not> le_zero v)"
  by (cases v) (auto simp add: is_positive_integer_def)

lemma empty_str_iff: "isinstance_str v \<Longrightarrow> (v = PStr []) = (\<not> truthy v)"
  by (cases v) simp_all

text \<open>
  C7. \<open>validate_input\<close> raises exactly when one of the four conditions holds (the city
  is empty or not a string, the number of records is not a positive integer, the output
  file is empty or not a string, the seed is given and not an integer); what it raises
  is a \<open>ValueError\<close>; otherwise it returns. The model has no state to change: the
  function only reads its argument.
\<close>

theorem validate_input_iff:
  "(\<exists>e. validate_input args = Inl e) = invalid_args args \<and>
   (\<forall>e. validate_input args = Inl e \<longrightarrow> is_ValueError e) \<and>
   (\<not> invalid_args args \<longrightarrow> validate_input args = Inr ())"
proof -
  have c: "(args_city args = PStr [] \<or> \<not> is_string (args_city args))
      = (\<not> isinstance_str (args_city args) \<or> \<not> truthy (args_city args))"
    using empty_str_iff [of "args_city args"] by (auto simp add: is_string_iff)
  have f: "(args_output_file args = PStr [] \<or> \<not> is_string (args_output_file args))
      = (\<not> isinstance_str (args_output_file args) \<or> \<not> truthy (args_output_file args))"
    using empty_str_iff [of "args_output_file args"] by (auto simp add: is_string_iff)
  have n: "(\<not> is_positive_integer (args_num_records args))
      = (\<not> isinstance_int (args_num_records args) \<or> le_zero (args_num_records args))"
    by (simp only: is_positive_integer_iff de_Morgan_conj not_not)
  show ?thesis
    unfolding invalid_args_def c f n is_integer_iff validate_input_def
    by simp
qed

theorem validate_input_iff_witness:
  "\<not> invalid_args demo_args \<and> validate_input demo_args = Inr () \<and>
   invalid_args (demo_args\<lparr>args_num_records := PInt 0\<rparr>) \<and>
   validate_input (demo_args\<lparr>args_num_records := PInt 0\<rparr>)
     = Inl (ValueError ''Number of records must be a positive integer.'')"
  using validate_input_iff [of demo_args]
    validate_input_iff [of "demo_args\<lparr>args_num_records := PInt 0\<rparr>"]
  by (simp add: demo_args_def validate_input_def ustr_def)

section \<open>Facts about writing and the exit code\<close>

lemma write_data_to_csv_fault:
  assumes "fault w path = Some f" and "is_Exception (fault_exn f)"
  shows "fst (write_data_to_csv data path w) = Inl (fault_exn f)"
    and "log (snd (write_data_to_csv data path w))
           = log w @ [(ERROR, Error_writing path (fault_exn f))]"
  using assms
  by (cases f; simp add: write_data_to_csv_def open_and_write_def logging_def)+

lemma handle_exn_exit:
  "is_Exception e \<Longrightarrow> fst (handle_exn e w) = Exit 1"
  by (simp add: handle_exn_def)

lemma validated_values:
  assumes "validate_input args = Inr ()"
  shows "\<exists>n c s path. int_value (args_num_records args) = Some n \<and> str_value (args_city args) = Some c \<and>
           seed_value (args_seed args) = Some s \<and> str_value (args_output_file args) = Some path"
proof -
  from assms have c: "isinstance_str (args_city args)" and n: "isinstance_int (args_num_records args)"
    and f: "isinstance_str (args_output_file args)"
    and s: "args_seed args = PNone \<or> isinstance_int (args_seed args)"
    by (simp_all add: validate_input_def split: if_splits)
  from c obtain c' where "str_value (args_city args) = Some c'" by (cases "args_city args") simp_all
  moreover from f obtain p where "str_value (args_output_file args) = Some p"
    by (cases "args_output_file args") simp_all
  moreover from n obtain n' where "int_value (args_num_records args) = Some n'"
    by (cases "args_num_records args") simp_all
  moreover from s obtain s' where "seed_value (args_seed args) = Some s'"
    by (cases "args_seed args") auto
  ultimately show ?thesis by blast
qed

lemma logging_fault: "fault (logging lvl msg w) = fault w"
  by (simp add: logging_def)

text \<open>
  C9. When the output path cannot be opened or written (the file system raises an
  exception \<open>e\<close> there, an \<open>Exception\<close> as every I/O error is), \<open>write_data_to_csv\<close> logs
  the error and raises \<open>e\<close> itself to its caller, and \<open>main\<close>, called with that output
  path, ends the process with exit code 1 (not with an uncaught exception).
\<close>

theorem write_failure_exit_1:
  assumes "fault w path = Some f" and "is_Exception (fault_exn f)"
  shows "fst (write_data_to_csv data path w) = Inl (fault_exn f) \<and>
         log (snd (write_data_to_csv data path w))
           = log w @ [(ERROR, Error_writing path (fault_exn f))] \<and>
         (args_output_file args = PStr path \<longrightarrow> fst (main L args w) = Exit 1)"
proof -
  have "fst (main L args w) = Exit 1" if p: "args_output_file args = PStr path"
  proof (cases "validate_input args")
    case (Inl e)
    then have "isinstance_ValueError e"
      by (auto simp add: validate_input_def split: if_splits)
    with Inl show ?thesis by (simp add: main_def handle_exn_def)
  next
    case (Inr u)
    then have v: "validate_input args = Inr ()" by simp
    from validated_values [OF v] p obtain n c s where
      vals: "int_value (args_num_records args) = Some n" "str_value (args_city args) = Some c"
        "seed_value (args_seed args) = Some s" "str_value (args_output_file args) = Some path"
      by auto
    define w3 where "w3 = (if args_seed args \<noteq> PNone then logging INFO (Using_seed (args_seed args))
        (logging INFO (Parameters (args_city args) (args_num_records args) (args_output_file args))
          (logging INFO Starting w))
      else logging INFO (Parameters (args_city args) (args_num_records args) (args_output_file args))
          (logging INFO Starting w))"
    have fw: "fault (w3\<lparr>rng := r\<rparr>) path = Some f" for r
      using assms(1) by (simp add: w3_def logging_fault)
    have "fst (write_data_to_csv d path (w3\<lparr>rng := r\<rparr>)) = Inl (fault_exn f)" for d r
      using write_data_to_csv_fault(1) [OF fw assms(2)] .
    then show ?thesis
      using assms(2)
      by (simp add: main_def v vals Let_def case_prod_beta w3_def [symmetric] handle_exn_exit
          split: sum.splits)
  qed
  with write_data_to_csv_fault [OF assms] show ?thesis by simp
qed

theorem write_failure_exit_1_witness:
  "fault demo_world (ustr ''/no/such/dir/out.csv'')
     = Some (Open_fails (OSError ''No such file or directory'')) \<and>
   is_Exception (OSError ''No such file or directory'') \<and>
   fst (write_data_to_csv [(ustr ''Ann'', ustr ''1 Elm St'')] (ustr ''/no/such/dir/out.csv'') demo_world)
     = Inl (OSError ''No such file or directory'') \<and>
   fst (main demo_lib demo_args demo_world) = Exit 1"
  using write_failure_exit_1 [of demo_world "ustr ''/no/such/dir/out.csv''"
      "Open_fails (OSError ''No such file or directory'')" "[(ustr ''Ann'', ustr ''1 Elm St'')]"
      demo_args demo_lib]
  by (simp add: demo_world_def demo_args_def)

section \<open>Writing and reading back\<close>

subsection \<open>The reader over events\<close>










subsection \<open>One field, one row, all rows\<close>








subsection \<open>Encoding the lines\<close>



lemma encodable_append: "encodable C (a @ b) = (encodable C a \<and> encodable C b)"
  by (simp add: encodable_def)








subsection \<open>The round trip\<close>





end
